theory Spec2Isabelle
  imports Main "HOL-Library.Word"
begin

section \<open>The option structures of \<^verbatim>\<open>include/leveldb/options.h\<close>\<close>

text \<open>
  The header declares the configuration records of the storage engine: the enum
  \<^verbatim>\<open>CompressionType\<close>, and the structs \<^verbatim>\<open>CompressionOptions\<close>, \<^verbatim>\<open>Options\<close>,
  \<^verbatim>\<open>ReadOptions\<close>, \<^verbatim>\<open>WriteOptions\<close> and \<^verbatim>\<open>FlushOptions\<close>. The constructors of the
  last three and of \<^verbatim>\<open>CompressionOptions\<close> are defined inline in the header. Of
  \<^verbatim>\<open>Options\<close> the header only declares the constructor, \<^verbatim>\<open>Dump\<close> and
  \<^verbatim>\<open>PrepareForBulkLoad\<close>; their bodies live in another translation unit.
\<close>

subsection \<open>Machine types\<close>

text \<open>
  \<^verbatim>\<open>int\<close> is a 32-bit two's complement integer, read with \<^const>\<open>sint\<close>;
  \<^verbatim>\<open>unsigned int\<close> is 32 bits, \<^verbatim>\<open>uint64_t\<close> 64 bits, and \<^verbatim>\<open>size_t\<close> is taken
  as 64 bits (LP64). A \<^verbatim>\<open>double\<close> is stored as its 64-bit pattern: the header never
  computes with it. A raw pointer and a \<^verbatim>\<open>shared_ptr\<close> handle are an address or
  \<^verbatim>\<open>nullptr\<close>; the objects behind them are outside the header.
\<close>

type_synonym c_int = "32 word"
type_synonym c_uint = "32 word"
type_synonym uint64_t = "64 word"
type_synonym size_t = "64 word"
type_synonym double = "64 word"

datatype ptr = nullptr | Ptr nat

subsection \<open>\<^verbatim>\<open>enum CompressionType\<close>\<close>

datatype CompressionType =
    kNoCompression
  | kSnappyCompression
  | kZlibCompression
  | kBZip2Compression

text \<open>The enumerators' values, as the declaration fixes them (0x0 .. 0x3).\<close>

fun CompressionType_value :: "CompressionType \<Rightarrow> int" where
  "CompressionType_value kNoCompression = 0x0"
| "CompressionType_value kSnappyCompression = 0x1"
| "CompressionType_value kZlibCompression = 0x2"
| "CompressionType_value kBZip2Compression = 0x3"

text \<open>
  Reading a stored number back, as \<^verbatim>\<open>static_cast<CompressionType>(n)\<close> does: the
  enumerator that carries the number. A number that no enumerator carries names no
  \<^verbatim>\<open>CompressionType\<close>.
\<close>

definition CompressionType_of_value :: "int \<Rightarrow> CompressionType option" where
  "CompressionType_of_value n =
     (if n = 0x0 then Some kNoCompression
      else if n = 0x1 then Some kSnappyCompression
      else if n = 0x2 then Some kZlibCompression
      else if n = 0x3 then Some kBZip2Compression
      else None)"

subsection \<open>\<^verbatim>\<open>struct CompressionOptions\<close>\<close>

record CompressionOptions =
  window_bits :: c_int
  level :: c_int
  strategy :: c_int

text \<open>\<^verbatim>\<open>CompressionOptions()\<close>: window_bits(-14), level(-1), strategy(0).\<close>

definition CompressionOptions_default :: CompressionOptions where
  "CompressionOptions_default = \<lparr> window_bits = - 14, level = - 1, strategy = 0 \<rparr>"

text \<open>\<^verbatim>\<open>CompressionOptions(int wbits, int lev, int strategy)\<close>.\<close>

definition CompressionOptions_init :: "c_int \<Rightarrow> c_int \<Rightarrow> c_int \<Rightarrow> CompressionOptions" where
  "CompressionOptions_init wbits lev strat =
     \<lparr> window_bits = wbits, level = lev, strategy = strat \<rparr>"

subsection \<open>\<^verbatim>\<open>struct Options\<close>\<close>

text \<open>The fields in the order of their declaration.\<close>

record Options =
  comparator :: ptr
  merge_operator :: ptr
  compaction_filter :: ptr
  create_if_missing :: bool
  error_if_exists :: bool
  paranoid_checks :: bool
  env :: ptr
  info_log :: ptr
  write_buffer_size :: size_t
  max_write_buffer_number :: c_int
  max_open_files :: c_int
  block_cache :: ptr
  block_size :: size_t
  block_restart_interval :: c_int
  compression :: CompressionType
  compression_per_level :: "CompressionType list"
  compression_opts :: CompressionOptions
  filter_policy :: ptr
  num_levels :: c_int
  level0_file_num_compaction_trigger :: c_int
  level0_slowdown_writes_trigger :: c_int
  level0_stop_writes_trigger :: c_int
  max_mem_compaction_level :: c_int
  target_file_size_base :: c_int
  target_file_size_multiplier :: c_int
  max_bytes_for_level_base :: uint64_t
  max_bytes_for_level_multiplier :: c_int
  max_bytes_for_level_multiplier_additional :: "c_int list"
  expanded_compaction_factor :: c_int
  source_compaction_factor :: c_int
  max_grandparent_overlap_factor :: c_int
  statistics :: ptr
  disableDataSync :: bool
  use_fsync :: bool
  db_stats_log_interval :: c_int
  db_log_dir :: string
  disable_seek_compaction :: bool
  delete_obsolete_files_period_micros :: uint64_t
  max_background_compactions :: c_int
  max_log_file_size :: size_t
  log_file_time_to_roll :: size_t
  keep_log_file_num :: size_t
  rate_limit :: double
  rate_limit_delay_milliseconds :: c_uint
  max_manifest_file_size :: uint64_t
  no_block_cache :: bool
  table_cache_numshardbits :: c_int
  disable_auto_compactions :: bool
  WAL_ttl_seconds :: uint64_t
  manifest_preallocation_size :: size_t
  purge_redundant_kvs_while_flush :: bool
  allow_os_buffer :: bool
  allow_readahead :: bool
  allow_readahead_compactions :: bool
  allow_mmap_reads :: bool
  allow_mmap_writes :: bool
  is_fd_close_on_exec :: bool
  skip_log_error_on_recovery :: bool

subsection \<open>\<^verbatim>\<open>struct ReadOptions\<close>\<close>

record ReadOptions =
  verify_checksums :: bool
  fill_cache :: bool
  snapshot :: ptr

text \<open>\<^verbatim>\<open>ReadOptions()\<close>: verify_checksums(false), fill_cache(true), snapshot(nullptr).\<close>

definition ReadOptions_default :: ReadOptions where
  "ReadOptions_default =
     \<lparr> verify_checksums = False, fill_cache = True, snapshot = nullptr \<rparr>"

text \<open>
  \<^verbatim>\<open>ReadOptions(bool cksum, bool cache)\<close>: verify_checksums(cksum), fill_cache(cache),
  snapshot(nullptr).
\<close>

definition ReadOptions_init :: "bool \<Rightarrow> bool \<Rightarrow> ReadOptions" where
  "ReadOptions_init cksum cache =
     \<lparr> verify_checksums = cksum, fill_cache = cache, snapshot = nullptr \<rparr>"

subsection \<open>\<^verbatim>\<open>struct WriteOptions\<close>\<close>

record WriteOptions =
  sync :: bool
  disableWAL :: bool

text \<open>\<^verbatim>\<open>WriteOptions()\<close>: sync(false), disableWAL(false).\<close>

definition WriteOptions_default :: WriteOptions where
  "WriteOptions_default = \<lparr> sync = False, disableWAL = False \<rparr>"

subsection \<open>\<^verbatim>\<open>struct FlushOptions\<close>\<close>

record FlushOptions =
  wait :: bool

text \<open>\<^verbatim>\<open>FlushOptions()\<close>: wait(true).\<close>

definition FlushOptions_default :: FlushOptions where
  "FlushOptions_default = \<lparr> wait = True \<rparr>"

section \<open>The member functions of \<^verbatim>\<open>Options\<close> declared in the header\<close>

subsection \<open>\<^verbatim>\<open>Options::Options()\<close>\<close>

text \<open>
  Modelled from the spec: the body of \<^verbatim>\<open>Options::Options()\<close>, which the header only
  declares ("Create an Options object with default values for all fields"). The
  constructor writes the defaults that the field comments of the header and the table of
  defaults of the specification (section 4.1) state. The argument \<open>unspec\<close> carries the
  fields for which neither of them fixes a value: \<^verbatim>\<open>comparator\<close> and \<^verbatim>\<open>env\<close>
  (addresses of objects defined elsewhere), \<^verbatim>\<open>compression_per_level\<close>,
  \<^verbatim>\<open>compression_opts\<close>, \<^verbatim>\<open>num_levels\<close>, the three level-0 triggers,
  \<^verbatim>\<open>max_mem_compaction_level\<close>, \<^verbatim>\<open>max_bytes_for_level_multiplier_additional\<close>,
  \<^verbatim>\<open>expanded_compaction_factor\<close>, \<^verbatim>\<open>max_grandparent_overlap_factor\<close>,
  \<^verbatim>\<open>statistics\<close>, \<^verbatim>\<open>db_log_dir\<close>, \<^verbatim>\<open>disable_seek_compaction\<close>,
  \<^verbatim>\<open>max_log_file_size\<close>, \<^verbatim>\<open>rate_limit\<close>, \<^verbatim>\<open>rate_limit_delay_milliseconds\<close>,
  \<^verbatim>\<open>max_manifest_file_size\<close>, \<^verbatim>\<open>no_block_cache\<close>, \<^verbatim>\<open>table_cache_numshardbits\<close>
  and \<^verbatim>\<open>disable_auto_compactions\<close>. It stands for whatever the body writes
  there. 4MB is \<open>4 * 1024 * 1024\<close>, 2MB and 10MB likewise, 4K is 4096.
\<close>

definition Options_ctor :: "Options \<Rightarrow> Options" where
  "Options_ctor unspec = unspec
     \<lparr> merge_operator := nullptr,
       compaction_filter := nullptr,
       create_if_missing := False,
       error_if_exists := False,
       paranoid_checks := False,
       info_log := nullptr,
       write_buffer_size := 4194304,
       max_write_buffer_number := 2,
       max_open_files := 1000,
       block_cache := nullptr,
       block_size := 4096,
       block_restart_interval := 16,
       compression := kSnappyCompression,
       filter_policy := nullptr,
       target_file_size_base := 2097152,
       target_file_size_multiplier := 1,
       max_bytes_for_level_base := 10485760,
       max_bytes_for_level_multiplier := 10,
       source_compaction_factor := 1,
       disableDataSync := False,
       use_fsync := False,
       db_stats_log_interval := 1800,
       delete_obsolete_files_period_micros := 0,
       max_background_compactions := 1,
       log_file_time_to_roll := 0,
       keep_log_file_num := 1000,
       WAL_ttl_seconds := 0,
       manifest_preallocation_size := 4194304,
       purge_redundant_kvs_while_flush := True,
       allow_os_buffer := True,
       allow_readahead := True,
       allow_readahead_compactions := True,
       allow_mmap_reads := False,
       allow_mmap_writes := True,
       is_fd_close_on_exec := True,
       skip_log_error_on_recovery := False \<rparr>"

subsection \<open>\<^verbatim>\<open>Options::PrepareForBulkLoad()\<close>\<close>

text \<open>
  Modelled from the spec: the numbers that the body of
  \<^verbatim>\<open>Options::PrepareForBulkLoad()\<close> writes, which the header does not show. The
  specification names the fields and the direction (disable or maximise the level-0
  triggers, widen the write buffer and the file-size target) and leaves the numbers to
  the implementation, so they are a parameter of the model.
\<close>

record BulkLoadPreset =
  bulk_level0_file_num_compaction_trigger :: c_int
  bulk_level0_slowdown_writes_trigger :: c_int
  bulk_level0_stop_writes_trigger :: c_int
  bulk_write_buffer_size :: size_t
  bulk_target_file_size_base :: c_int

text \<open>
  Modelled from the spec: the body of \<^verbatim>\<open>Options::PrepareForBulkLoad()\<close>, which the
  header only declares ("Set appropriate parameters for bulk loading. All data will be
  in level 0 without any automatic compaction"). Following section 4.2 of the
  specification it overwrites the level-0 compaction triggers, sets
  \<^verbatim>\<open>disable_auto_compactions = true\<close>, and overwrites \<^verbatim>\<open>write_buffer_size\<close> and the
  file-size target. The C++ function returns \<^verbatim>\<open>this\<close>; here it returns the updated
  object.
\<close>

definition PrepareForBulkLoad :: "BulkLoadPreset \<Rightarrow> Options \<Rightarrow> Options" where
  "PrepareForBulkLoad preset opts = opts
     \<lparr> level0_file_num_compaction_trigger := bulk_level0_file_num_compaction_trigger preset,
       level0_slowdown_writes_trigger := bulk_level0_slowdown_writes_trigger preset,
       level0_stop_writes_trigger := bulk_level0_stop_writes_trigger preset,
       disable_auto_compactions := True,
       write_buffer_size := bulk_write_buffer_size preset,
       target_file_size_base := bulk_target_file_size_base preset \<rparr>"

section \<open>The compression enum\<close>

text \<open>
  Claim C1. The enumerators carry exactly the numbers 0, 1, 2 and 3
  (\<^verbatim>\<open>kNoCompression\<close>, \<^verbatim>\<open>kSnappyCompression\<close>, \<^verbatim>\<open>kZlibCompression\<close>,
  \<^verbatim>\<open>kBZip2Compression\<close>), and writing any \<^verbatim>\<open>CompressionType\<close> as its number and
  reading the number back gives the same enumerator. A number reads back as an
  enumerator exactly when it is that enumerator's number, so no two enumerators share
  one.
\<close>

theorem CompressionType_values_roundtrip:
  "CompressionType_value kNoCompression = 0
   \<and> CompressionType_value kSnappyCompression = 1
   \<and> CompressionType_value kZlibCompression = 2
   \<and> CompressionType_value kBZip2Compression = 3
   \<and> (\<forall>c. CompressionType_of_value (CompressionType_value c) = Some c)
   \<and> (\<forall>n c. (CompressionType_of_value n = Some c) = (CompressionType_value c = n))"
proof -
  have roundtrip: "CompressionType_of_value (CompressionType_value c) = Some c" for c
    by (cases c) (simp_all add: CompressionType_of_value_def)
  have "CompressionType_value c = n" if "CompressionType_of_value n = Some c" for n c
    using that by (auto simp: CompressionType_of_value_def split: if_splits)
  with roundtrip have "(CompressionType_of_value n = Some c) = (CompressionType_value c = n)" for n c
    by blast
  with roundtrip show ?thesis by simp
qed

section \<open>Per-operation options\<close>

text \<open>
  Claim C9. A default-constructed \<^verbatim>\<open>WriteOptions\<close> has \<^verbatim>\<open>sync == false\<close> and
  \<^verbatim>\<open>disableWAL == false\<close>.
\<close>

theorem WriteOptions_default_fields:
  "sync WriteOptions_default = False \<and> disableWAL WriteOptions_default = False"
  by (simp add: WriteOptions_default_def)

text \<open>
  Claim C10. Both constructors of \<^verbatim>\<open>ReadOptions\<close> set \<^verbatim>\<open>snapshot\<close> to
  \<^verbatim>\<open>nullptr\<close>: the default one gives \<^verbatim>\<open>verify_checksums == false\<close>,
  \<^verbatim>\<open>fill_cache == true\<close>, the two-argument one stores its arguments in these two
  fields, whatever they are. A snapshot gets into the structure only by assigning the
  field afterwards, which changes nothing else.
\<close>

theorem ReadOptions_constructors_snapshot_null:
  "verify_checksums ReadOptions_default = False
   \<and> fill_cache ReadOptions_default = True
   \<and> snapshot ReadOptions_default = nullptr
   \<and> (\<forall>cksum cache.
        verify_checksums (ReadOptions_init cksum cache) = cksum
        \<and> fill_cache (ReadOptions_init cksum cache) = cache
        \<and> snapshot (ReadOptions_init cksum cache) = nullptr
        \<and> (\<forall>s. ReadOptions_init cksum cache \<lparr> snapshot := s \<rparr>
               = \<lparr> verify_checksums = cksum, fill_cache = cache, snapshot = s \<rparr>))"
  by (simp add: ReadOptions_default_def ReadOptions_init_def)

section \<open>Database options\<close>

text \<open>
  Claim C5. A default-constructed \<^verbatim>\<open>Options\<close> has \<^verbatim>\<open>create_if_missing == false\<close>,
  \<^verbatim>\<open>max_open_files == 1000\<close> and \<^verbatim>\<open>block_size == 4096\<close>, whatever the constructor
  does with the fields that have no documented default.
\<close>

theorem Options_ctor_documented_defaults:
  "create_if_missing (Options_ctor unspec) = False
   \<and> max_open_files (Options_ctor unspec) = 1000
   \<and> sint (max_open_files (Options_ctor unspec)) = 1000
   \<and> block_size (Options_ctor unspec) = 4096
   \<and> unat (block_size (Options_ctor unspec)) = 4096"
  by (simp add: Options_ctor_def)

text \<open>
  Claim C2. For every \<^verbatim>\<open>Options\<close> value, \<^verbatim>\<open>PrepareForBulkLoad\<close> leaves
  \<^verbatim>\<open>comparator\<close>, \<^verbatim>\<open>merge_operator\<close>, \<^verbatim>\<open>compaction_filter\<close>, \<^verbatim>\<open>filter_policy\<close>
  and \<^verbatim>\<open>env\<close> as they were. It writes its own subset of fields only: putting the old
  values of the three level-0 triggers, \<^verbatim>\<open>disable_auto_compactions\<close>,
  \<^verbatim>\<open>write_buffer_size\<close> and \<^verbatim>\<open>target_file_size_base\<close> back gives the object before
  the call.
\<close>

theorem PrepareForBulkLoad_frame:
  "comparator (PrepareForBulkLoad preset opts) = comparator opts
   \<and> merge_operator (PrepareForBulkLoad preset opts) = merge_operator opts
   \<and> compaction_filter (PrepareForBulkLoad preset opts) = compaction_filter opts
   \<and> filter_policy (PrepareForBulkLoad preset opts) = filter_policy opts
   \<and> env (PrepareForBulkLoad preset opts) = env opts
   \<and> PrepareForBulkLoad preset opts
        \<lparr> level0_file_num_compaction_trigger := level0_file_num_compaction_trigger opts,
          level0_slowdown_writes_trigger := level0_slowdown_writes_trigger opts,
          level0_stop_writes_trigger := level0_stop_writes_trigger opts,
          disable_auto_compactions := disable_auto_compactions opts,
          write_buffer_size := write_buffer_size opts,
          target_file_size_base := target_file_size_base opts \<rparr> = opts"
  by (simp add: PrepareForBulkLoad_def)

text \<open>
  Claim C4. \<^verbatim>\<open>PrepareForBulkLoad\<close> is idempotent: applying it twice gives the same
  object, field by field, as applying it once.
\<close>

theorem PrepareForBulkLoad_idempotent:
  "PrepareForBulkLoad preset (PrepareForBulkLoad preset opts) = PrepareForBulkLoad preset opts"
  by (simp add: PrepareForBulkLoad_def)

end
